theory Spec2Isabelle
  imports Complex_Main
begin

section \<open>Vinheria: login with an access token and a product ledger (server.js)\<close>

text \<open>
  The program is an Express application over two SQLite tables, \<open>users\<close> and
  \<open>products\<close>. Each route handler is embedded as a function from the parts of the
  request it reads, the session and the tables to the response, the session and the
  tables afterwards. An exception that leaves a handler is the response \<open>Uncaught\<close>.
\<close>

subsection \<open>JavaScript strings and request values\<close>

text \<open>
  A \<open>string\<close> is a list of UTF-16 code units in the range U+0000 to U+00FF, one
  \<open>char\<close> each. In that range \<open>String.prototype.trim\<close> removes TAB, LF, VT, FF, CR,
  SPACE and NO-BREAK SPACE from both ends, and \<open>toLowerCase\<close> moves \<open>A\<close> to \<open>Z\<close> and
  U+00C0 to U+00DE (U+00D7, the multiplication sign, apart) up by 32.
\<close>

definition is_white_space :: "char \<Rightarrow> bool" where
  "is_white_space c =
     (let n = (of_char c :: nat) in (9 \<le> n \<and> n \<le> 13) \<or> n = 32 \<or> n = 160)"

definition trim :: "string \<Rightarrow> string" where
  "trim s = rev (dropWhile is_white_space (rev (dropWhile is_white_space s)))"

definition lower_char :: "char \<Rightarrow> char" where
  "lower_char c =
     (let n = (of_char c :: nat) in
      if (65 \<le> n \<and> n \<le> 90) \<or> (192 \<le> n \<and> n \<le> 222 \<and> n \<noteq> 215)
      then char_of (n + 32) else c)"

definition toLowerCase :: "string \<Rightarrow> string" where
  "toLowerCase s = map lower_char s"

text \<open>
  A field of \<open>req.body\<close>, as \<open>express.urlencoded({ extended: true })\<close> leaves it:
  absent, a string, or an array or object (from \<open>a[]=1\<close> or \<open>a[k]=1\<close>). An array or
  object is truthy, has no callable \<open>trim\<close> and is never \<open>===\<close> to a string.
\<close>

datatype jsval = Undefined | Str string | Compound

subsection \<open>Numbers\<close>

text \<open>
  A JavaScript number and an SQLite REAL are IEEE 754 doubles. A double other than
  \<open>NaN\<close> is kept as the rational it stands for, or as an infinity; the two zeros are
  not told apart (the insert stores either as the INTEGER 0). \<open>round_double r\<close> is the
  double nearest to \<open>r\<close>, ties going to the even significand: with \<open>ilog2 r\<close> the
  exponent of the leading bit of \<open>r\<close>, the doubles around \<open>r\<close> are the multiples of
  \<open>2^q\<close> for \<open>q = ilog2 r - 52\<close>, and of \<open>2^-1074\<close> among the subnormals; a
  rounded significand \<open>m\<close> reaches \<open>2^1024\<close>, and so overflows to the infinity, when
  \<open>m\<close> has more than \<open>1024 - q\<close> bits.
\<close>

datatype dbl = Finite rat | PosInf | NegInf

function bitlen :: "int \<Rightarrow> int" where
  "bitlen n = (if n \<le> 0 then 0 else 1 + bitlen (n div 2))"
  by pat_completeness auto
termination
  by (relation "measure nat") auto

declare bitlen.simps [simp del]

definition round_half_even :: "rat \<Rightarrow> int" where
  "round_half_even x =
     (let f = \<lfloor>x\<rfloor>; d = x - of_int f in
      if d < 1 / 2 then f else if 1 / 2 < d then f + 1 else if even f then f else f + 1)"

definition pow2 :: "int \<Rightarrow> rat" where
  "pow2 k = (if 0 \<le> k then 2 ^ nat k else 1 / 2 ^ nat (- k))"

definition ilog2 :: "rat \<Rightarrow> int" where
  "ilog2 r =
     (if 1 \<le> r then bitlen \<lfloor>r\<rfloor> - 1
      else (let b = bitlen \<lfloor>1 / r\<rfloor> in
            if 1 \<le> r * pow2 (b - 1) then 1 - b else - b))"

definition round_pos :: "rat \<Rightarrow> dbl" where
  "round_pos r =
     (if r = 0 then Finite 0
      else
        (let q = max (ilog2 r - 52) (- 1074);
             m = round_half_even (r / pow2 q)
         in if 1024 < bitlen m + q then PosInf else Finite (of_int m * pow2 q)))"

fun dneg :: "dbl \<Rightarrow> dbl" where
  "dneg (Finite v) = Finite (- v)"
| "dneg PosInf = NegInf"
| "dneg NegInf = PosInf"

definition round_double :: "rat \<Rightarrow> dbl" where
  "round_double r = (if r < 0 then dneg (round_pos (- r)) else round_pos r)"

fun dnonneg :: "dbl \<Rightarrow> bool" where
  "dnonneg (Finite v) = (0 \<le> v)"
| "dnonneg PosInf = True"
| "dnonneg NegInf = False"

fun dpos :: "dbl \<Rightarrow> bool" where
  "dpos (Finite v) = (0 < v)"
| "dpos PosInf = True"
| "dpos NegInf = False"

text \<open>Double addition and subtraction of 1: the exact result, rounded.\<close>

fun dplus1 :: "dbl \<Rightarrow> dbl" where
  "dplus1 (Finite v) = round_double (v + 1)"
| "dplus1 PosInf = PosInf"
| "dplus1 NegInf = NegInf"

fun dminus1 :: "dbl \<Rightarrow> dbl" where
  "dminus1 (Finite v) = round_double (v - 1)"
| "dminus1 PosInf = PosInf"
| "dminus1 NegInf = NegInf"

text \<open>
  The \<open>quantity\<close> field is only ever read through \<open>Number(req.body.quantity||0)\<close>,
  so it is represented by what that expression distinguishes: the field is absent, it is
  the empty string (both falsy, replaced by the number \<open>0\<close>), it is a truthy value
  whose numeric literal denotes the rational \<open>r\<close> (the text \<open>-5\<close>, \<open>0.1\<close> or
  \<open>1e3\<close>), which \<open>Number\<close> rounds to the nearest double, it is a truthy value that
  spells an infinity, or it is a truthy value that \<open>Number\<close> converts to \<open>NaN\<close> (the
  text \<open>abc\<close>).
\<close>

datatype quantity_field =
  Omitted | Blank | NumericText rat | InfinityText | MinusInfinityText | NotNumeric

datatype jsnum = NaN | Num dbl

fun Number_or0 :: "quantity_field \<Rightarrow> jsnum" where
  "Number_or0 Omitted = Num (Finite 0)"
| "Number_or0 Blank = Num (Finite 0)"
| "Number_or0 (NumericText r) = Num (round_double r)"
| "Number_or0 InfinityText = Num PosInf"
| "Number_or0 MinusInfinityText = Num NegInf"
| "Number_or0 NotNumeric = NaN"

record body =
  b_email :: jsval
  b_password :: jsval
  b_accessToken :: jsval
  b_name :: jsval
  b_quantity :: quantity_field

datatype js_error = TypeError | Error | SqliteError string

text \<open>
  \<open>SendPage t b\<close> is \<open>res.send(page(t, b))\<close>: the title and the body markup, without
  the style sheet that \<open>page\<close> wraps around them.
\<close>

datatype response = Redirect string | Send string | SendPage string string | Uncaught js_error

record session =
  user :: "(int \<times> string) option"
  flash :: "string option"

subsection \<open>The tables\<close>

record user_row =
  user_id :: int
  email :: string
  password_hash :: string

text \<open>
  A value of the column \<open>quantity INTEGER\<close>: a 64-bit INTEGER or a REAL. The column's
  affinity turns a REAL into an INTEGER when it is integral and strictly between
  \<open>-2^63\<close> and \<open>2^63\<close>, and stores it as a REAL otherwise (\<open>0.1\<close>, \<open>2^63\<close>, an
  infinity); \<open>sql_store\<close> is that conversion.
\<close>

datatype sqlnum = Integer int | Real dbl

fun sql_store :: "dbl \<Rightarrow> sqlnum" where
  "sql_store (Finite v) =
     (if of_int \<lfloor>v\<rfloor> = v \<and> - (2 ^ 63) < v \<and> v < 2 ^ 63 then Integer \<lfloor>v\<rfloor> else Real (Finite v))"
| "sql_store PosInf = Real PosInf"
| "sql_store NegInf = Real NegInf"

fun sql_nonneg :: "sqlnum \<Rightarrow> bool" where
  "sql_nonneg (Integer q) = (0 \<le> q)"
| "sql_nonneg (Real x) = dnonneg x"

record product_row =
  product_id :: int
  name :: string
  quantity :: sqlnum

text \<open>
  Both keys are \<open>INTEGER PRIMARY KEY AUTOINCREMENT\<close>: \<open>users_seq\<close> and
  \<open>products_seq\<close> are the largest key each table has ever issued, and a new row gets
  the next one. Rows are kept in insertion order, which is the order of their keys.
\<close>

record db =
  users :: "user_row list"
  products :: "product_row list"
  users_seq :: int
  products_seq :: int

text \<open>
  \<open>insert_product nm x\<close> is \<open>INSERT INTO products (name, quantity) VALUES (?, ?)\<close>
  run with the string \<open>nm\<close> and the JavaScript number \<open>x\<close>, which is bound as a
  double and stored under the column's affinity.
\<close>

definition insert_product :: "string \<Rightarrow> dbl \<Rightarrow> db \<Rightarrow> db" where
  "insert_product nm x d =
     d\<lparr>products := products d @
          [\<lparr>product_id = products_seq d + 1, name = nm, quantity = sql_store x\<rparr>],
       products_seq := products_seq d + 1\<rparr>"

text \<open>
  \<open>email TEXT UNIQUE NOT NULL\<close>: an insert whose email is already in the table fails
  with the code \<open>SQLITE_CONSTRAINT_UNIQUE\<close> and changes nothing.
\<close>

definition insert_user :: "string \<Rightarrow> string \<Rightarrow> db \<Rightarrow> js_error + db" where
  "insert_user e h d =
     (if list_ex (\<lambda>u. email u = e) (users d)
      then Inl (SqliteError ''SQLITE_CONSTRAINT_UNIQUE'')
      else Inr (d\<lparr>users := users d @
                    [\<lparr>user_id = users_seq d + 1, email = e, password_hash = h\<rparr>],
                  users_seq := users_seq d + 1\<rparr>))"

definition select_user :: "string \<Rightarrow> db \<Rightarrow> user_row option" where
  "select_user e d = find (\<lambda>u. email u = e) (users d)"

subsection \<open>Start-up: the seed\<close>

definition hasProducts :: "db \<Rightarrow> bool" where
  "hasProducts d = (0 < length (products d))"

definition seed :: "db \<Rightarrow> db" where
  \<open>seed d =
     insert_product (''Ros'' @ [CHR 0xE9] @ '' Suave'') (Finite 5)
       (insert_product ''Branco Seco'' (Finite 8)
         (insert_product ''Tinto Reserva'' (Finite 12) d))\<close>

definition startup :: "db \<Rightarrow> db" where
  "startup d = (if \<not> hasProducts d then seed d else d)"

definition empty_db :: db where
  "empty_db = \<lparr>users = [], products = [], users_seq = 0, products_seq = 0\<rparr>"

subsection \<open>The ledger routes\<close>

definition requireAuth :: "session \<Rightarrow> db \<Rightarrow> response \<times> db \<Rightarrow> response \<times> db" where
  "requireAuth s d next = (if user s = None then (Redirect ''/login'', d) else next)"

text \<open>
  \<open>quantity + 1\<close>. On an INTEGER below the largest, \<open>2^63 - 1\<close>, it is the next
  INTEGER. On the largest the sum overflows and SQLite computes it on the doubles of
  the two operands; on a REAL it is double addition. The result is stored under the
  column's affinity.
\<close>

fun sql_plus_1 :: "sqlnum \<Rightarrow> sqlnum" where
  "sql_plus_1 (Integer q) =
     (if q < 2 ^ 63 - 1 then Integer (q + 1)
      else sql_store (dplus1 (round_double (of_int q))))"
| "sql_plus_1 (Real x) = sql_store (dplus1 x)"

text \<open>
  \<open>MAX(quantity - 1, 0)\<close>. On an INTEGER above the smallest, \<open>-2^63\<close>, the
  difference is an INTEGER, and on the smallest and on a REAL it is a double; \<open>MAX\<close>
  compares it with the INTEGER 0 by value, and the greater is stored under the
  column's affinity.
\<close>

fun sql_max_minus_1_0 :: "sqlnum \<Rightarrow> sqlnum" where
  "sql_max_minus_1_0 (Integer q) =
     (if - (2 ^ 63) < q then Integer (max (q - 1) 0)
      else (let y = dminus1 (round_double (of_int q)) in
            if dpos y then sql_store y else Integer 0))"
| "sql_max_minus_1_0 (Real x) =
     (let y = dminus1 x in if dpos y then sql_store y else Integer 0)"

definition update_quantity :: "(sqlnum \<Rightarrow> sqlnum) \<Rightarrow> int \<Rightarrow> db \<Rightarrow> db" where
  "update_quantity f i d =
     d\<lparr>products := map (\<lambda>p. if product_id p = i then p\<lparr>quantity := f (quantity p)\<rparr> else p)
                        (products d)\<rparr>"

text \<open>
  \<open>POST /inventory/add\<close>. \<open>req.body.name.trim()\<close> throws a \<open>TypeError\<close> when the
  name is not a string. SQLite takes a bound \<open>NaN\<close> as NULL, which
  \<open>quantity INTEGER NOT NULL\<close> refuses, and the statement throws.
\<close>

definition post_add :: "session \<Rightarrow> body \<Rightarrow> db \<Rightarrow> response \<times> db" where
  "post_add s b d = requireAuth s d
     (case b_name b of
        Str n \<Rightarrow>
          (case Number_or0 (b_quantity b) of
             Num x \<Rightarrow> (Redirect ''/inventory'', insert_product (trim n) x d)
           | NaN \<Rightarrow> (Uncaught (SqliteError ''SQLITE_CONSTRAINT_NOTNULL''), d))
      | _ \<Rightarrow> (Uncaught TypeError, d))"

text \<open>
  The route parameter \<open>:id\<close> is text, compared with the integer key under the key's
  INTEGER affinity: \<open>i\<close> is the integer the text denotes. A text that denotes no
  integer matches no row, as an integer that is no row's key does. An \<open>UPDATE\<close> or
  \<open>DELETE\<close> that matches no row changes nothing and raises nothing.
\<close>

definition post_incr :: "session \<Rightarrow> int \<Rightarrow> db \<Rightarrow> response \<times> db" where
  "post_incr s i d = requireAuth s d (Redirect ''/inventory'', update_quantity sql_plus_1 i d)"

definition post_decr :: "session \<Rightarrow> int \<Rightarrow> db \<Rightarrow> response \<times> db" where
  "post_decr s i d =
     requireAuth s d (Redirect ''/inventory'', update_quantity sql_max_minus_1_0 i d)"

definition post_delete :: "session \<Rightarrow> int \<Rightarrow> db \<Rightarrow> response \<times> db" where
  "post_delete s i d =
     requireAuth s d
       (Redirect ''/inventory'', d\<lparr>products := filter (\<lambda>p. product_id p \<noteq> i) (products d)\<rparr>)"

text \<open>A run of \<open>+1\<close> and \<open>-1\<close> requests of one session, each on the key it names.\<close>

datatype ledger_request = Incr int | Decr int

fun run_request :: "session \<Rightarrow> ledger_request \<Rightarrow> db \<Rightarrow> db" where
  "run_request s (Incr i) d = snd (post_incr s i d)"
| "run_request s (Decr i) d = snd (post_decr s i d)"

fun run_requests :: "session \<Rightarrow> ledger_request list \<Rightarrow> db \<Rightarrow> db" where
  "run_requests s [] d = d"
| "run_requests s (r # rs) d = run_requests s rs (run_request s r d)"

definition quantity_of :: "int \<Rightarrow> db \<Rightarrow> sqlnum option" where
  "quantity_of i d = map_option quantity (find (\<lambda>p. product_id p = i) (products d))"

definition quantities_nonneg :: "db \<Rightarrow> bool" where
  "quantities_nonneg d = list_all (\<lambda>p. sql_nonneg (quantity p)) (products d)"

subsection \<open>Registration and login\<close>

text \<open>
  \<open>bcryptjs\<close> is a library: \<open>bhash\<close> stands for \<open>bcrypt.hash(_, 10)\<close> with the salt
  it draws in this call, \<open>bcompare\<close> for \<open>bcrypt.compare\<close>. Both reject an argument
  that is not a string with a plain \<open>Error\<close>.
\<close>

definition register_message :: "js_error \<Rightarrow> response" where
  \<open>register_message e =
     SendPage ''Cadastro - Vinheria''
       (''<p>'' @
        (if e = SqliteError ''SQLITE_CONSTRAINT_UNIQUE''
         then ''Email j'' @ [CHR 0xE1] @ '' cadastrado.'' else ''Erro.'') @
        ''</p><a href="/register">Voltar</a>'')\<close>

definition post_register ::
  "(string \<Rightarrow> string) \<Rightarrow> body \<Rightarrow> session \<Rightarrow> db \<Rightarrow> response \<times> session \<times> db" where
  \<open>post_register bhash b s d =
     (case b_password b of
        Str pw \<Rightarrow>
          (case b_email b of
             Str e \<Rightarrow>
               (case insert_user (toLowerCase (trim e)) (bhash pw) d of
                  Inr d' \<Rightarrow>
                    (Redirect ''/login'',
                     s\<lparr>flash := Some (''Cadastro realizado. Fa'' @ [CHR 0xE7] @ ''a login.'')\<rparr>, d')
                | Inl err \<Rightarrow> (register_message err, s, d))
           | _ \<Rightarrow> (register_message TypeError, s, d))
      | _ \<Rightarrow> (register_message Error, s, d))\<close>

definition invalid_token :: response where
  \<open>invalid_token = Send (''Token de acesso inv'' @ [CHR 0xE1] @ ''lido.'')\<close>

definition invalid_credentials :: response where
  \<open>invalid_credentials = Send (''Credenciais inv'' @ [CHR 0xE1] @ ''lidas'')\<close>

text \<open>\<open>v || ""\<close>: the empty string for an absent or empty field, else the value.\<close>

fun or_empty :: "jsval \<Rightarrow> jsval" where
  "or_empty Undefined = Str []"
| "or_empty (Str t) = Str t"
| "or_empty Compound = Compound"

text \<open>
  \<open>expectedToken\<close> is \<open>process.env.ACCESS_TOKEN\<close>: absent, or a string.
  \<open>token_refused\<close> is \<open>!expectedToken || accessToken !== expectedToken\<close>: the
  absent and the empty token are falsy. The third component of the result of
  \<open>post_login\<close> lists the emails looked up in \<open>users\<close>, in order. The handler is
  \<open>async\<close>: \<open>Uncaught\<close> is its rejected promise.
\<close>

fun token_refused :: "string option \<Rightarrow> jsval \<Rightarrow> bool" where
  "token_refused None a = True"
| "token_refused (Some t) a = (t = [] \<or> a \<noteq> Str t)"

definition post_login ::
  "(string \<Rightarrow> string \<Rightarrow> bool) \<Rightarrow> string option \<Rightarrow> body \<Rightarrow> session \<Rightarrow> db
     \<Rightarrow> response \<times> session \<times> string list" where
  "post_login bcompare expectedToken b s d =
     (if token_refused expectedToken (b_accessToken b)
      then (invalid_token, s, [])
      else
        (case or_empty (b_email b) of
           Str e \<Rightarrow>
             (let key = toLowerCase (trim e) in
              case select_user key d of
                None \<Rightarrow> (invalid_credentials, s, [key])
              | Some u \<Rightarrow>
                  (case or_empty (b_password b) of
                     Str pw \<Rightarrow>
                       if \<not> bcompare pw (password_hash u)
                       then (invalid_credentials, s, [key])
                       else (Redirect ''/inventory'',
                             s\<lparr>user := Some (user_id u, email u)\<rparr>, [key])
                   | _ \<Rightarrow> (Uncaught Error, s, [key])))
         | _ \<Rightarrow> (Uncaught TypeError, s, [])))"

subsection \<open>Concrete requests and states used in the examples\<close>

definition logged_in :: session where
  "logged_in = \<lparr>user = Some (1, ''a@x.com''), flash = None\<rparr>"

definition anonymous :: session where
  "anonymous = \<lparr>user = None, flash = None\<rparr>"

definition empty_body :: body where
  "empty_body = \<lparr>b_email = Undefined, b_password = Undefined, b_accessToken = Undefined,
                  b_name = Undefined, b_quantity = Omitted\<rparr>"

definition seeded :: db where
  "seeded = startup empty_db"

text \<open>The seeded ledger after adding a fourth product with the quantity left out.\<close>

definition with_verde :: db where
  "with_verde = snd (post_add logged_in (empty_body\<lparr>b_name := Str ''Verde''\<rparr>) seeded)"

text \<open>
  The seeded ledger after adding a fourth product with the quantity \<open>2^63 - 1024\<close>
  (a double, stored as an INTEGER) and pressing \<open>+1\<close> on it 1023 times.
\<close>

definition near_max :: db where
  "near_max =
     snd (post_add logged_in
            (empty_body\<lparr>b_name := Str ''Lote'', b_quantity := NumericText 9223372036854774784\<rparr>)
            seeded)"

definition at_max :: db where
  "at_max = run_requests logged_in (replicate 1023 (Incr 4)) near_max"

text \<open>
  The seeded ledger after adding a fourth product with the quantity \<open>-5\<close>, and after
  adding one with the quantity \<open>0.1\<close>.
\<close>

definition with_minus_five :: db where
  "with_minus_five =
     snd (post_add logged_in
            (empty_body\<lparr>b_name := Str ''Verde'', b_quantity := NumericText (- 5)\<rparr>) seeded)"

definition with_one_tenth :: db where
  "with_one_tenth =
     snd (post_add logged_in
            (empty_body\<lparr>b_name := Str ''Verde'', b_quantity := NumericText (1 / 10)\<rparr>) seeded)"

text \<open>
  A stand-in for \<open>bcryptjs\<close> in the examples. All that is used of it is that
  \<open>compare\<close> accepts the password a hash was made from, and no other.
\<close>

definition example_hash :: "string \<Rightarrow> string" where
  "example_hash pw = ''hash:'' @ pw"

definition example_compare :: "string \<Rightarrow> string \<Rightarrow> bool" where
  "example_compare pw h = (h = example_hash pw)"

text \<open>
  The seeded database after one registration, of \<open>a@x.com\<close> with the password
  \<open>pass1\<close>, and after one registration of \<open>a@x.com\<close> with the empty password.
\<close>

definition registered :: db where
  "registered =
     snd (snd (post_register example_hash
       (empty_body\<lparr>b_email := Str ''a@x.com'', b_password := Str ''pass1''\<rparr>) anonymous seeded))"

definition blank_password :: db where
  "blank_password =
     snd (snd (post_register example_hash
       (empty_body\<lparr>b_email := Str ''a@x.com'', b_password := Str []\<rparr>) anonymous seeded))"


section \<open>Rounding and storing numbers\<close>

lemma round_half_even_nonneg: "0 \<le> x \<Longrightarrow> 0 \<le> round_half_even x"
  by (simp add: round_half_even_def Let_def)

lemma round_half_even_of_int: "round_half_even (of_int k) = k"
  by (simp add: round_half_even_def Let_def)

lemma pow2_pos: "0 < pow2 k"
  by (simp add: pow2_def)

lemma dnonneg_round_pos: "0 \<le> r \<Longrightarrow> dnonneg (round_pos r)"
  by (simp add: round_pos_def Let_def round_half_even_nonneg pow2_pos less_imp_le)

lemma dnonneg_round_double: "0 \<le> r \<Longrightarrow> dnonneg (round_double r)"
  by (simp add: round_double_def dnonneg_round_pos)

lemma dnonneg_dplus1: "dnonneg x \<Longrightarrow> dnonneg (dplus1 x)"
  by (cases x) (simp_all add: dnonneg_round_double)

lemma dpos_dnonneg: "dpos x \<Longrightarrow> dnonneg x"
  by (cases x) simp_all

lemma sql_nonneg_store: "dnonneg x \<Longrightarrow> sql_nonneg (sql_store x)"
  by (cases x) simp_all

lemma sql_plus_1_nonneg: "sql_nonneg a \<Longrightarrow> sql_nonneg (sql_plus_1 a)"
  by (cases a) (simp_all add: sql_nonneg_store dnonneg_dplus1 dnonneg_round_double)

lemma sql_max_minus_1_0_nonneg: "sql_nonneg (sql_max_minus_1_0 a)"
  by (cases a) (simp_all add: Let_def sql_nonneg_store dpos_dnonneg)

lemma bitlen_nonneg: "0 \<le> bitlen n"
  by (induction n rule: bitlen.induct) (subst bitlen.simps, simp)

lemma bitlen_pos: "0 < n \<Longrightarrow> 1 \<le> bitlen n"
  using bitlen_nonneg [of "n div 2"] by (subst bitlen.simps) simp

lemma bitlen_bound: "n < 2 ^ k \<Longrightarrow> bitlen n \<le> int k"
proof (induction k arbitrary: n)
  case 0
  then show ?case
    by (subst bitlen.simps) simp
next
  case (Suc k)
  have "n div 2 < 2 ^ k"
    using Suc.prems by simp
  then have "bitlen (n div 2) \<le> int k"
    by (rule Suc.IH)
  then show ?case
    by (subst bitlen.simps) simp
qed

lemma round_pos_of_int:
  assumes "0 \<le> n" "n < 2 ^ 53"
  shows "round_pos (of_int n) = Finite (of_int n)"
proof (cases "n = 0")
  case True
  then show ?thesis
    by (simp add: round_pos_def)
next
  case False
  with assms have pos: "0 < n"
    by simp
  define e where "e = bitlen n - 1"
  define j where "j = nat (52 - e)"
  have e: "0 \<le> e" "e \<le> 52"
    using bitlen_pos [OF pos] bitlen_bound [OF assms(2)] by (simp_all add: e_def)
  have il: "ilog2 (of_int n) = e"
    using pos by (simp add: ilog2_def e_def)
  have q: "max (e - 52) (- 1074) = - int j"
    using e by (simp add: j_def)
  have p: "pow2 (- int j) = 1 / 2 ^ j"
    by (simp add: pow2_def)
  have d: "(of_int n :: rat) / pow2 (- int j) = of_int (n * 2 ^ j)"
    by (simp add: p)
  have "j \<le> 52"
    using e by (simp add: j_def)
  then have "(2::int) ^ j \<le> 2 ^ 52"
    by (intro power_increasing) simp_all
  then have "n * 2 ^ j < 2 ^ 53 * 2 ^ 52"
    using assms(2) pos by (intro mult_less_le_imp_less) simp_all
  then have "n * 2 ^ j < 2 ^ 105"
    by simp
  then have "bitlen (n * 2 ^ j) \<le> 105"
    using bitlen_bound [of "n * 2 ^ j" 105] by simp
  then have small: "\<not> 1024 < bitlen (n * 2 ^ j) + - int j"
    by simp
  have v: "of_int (n * 2 ^ j) * pow2 (- int j) = (of_int n :: rat)"
    by (simp add: p)
  from pos have nz: "(of_int n :: rat) \<noteq> 0"
    by simp
  show ?thesis
    unfolding round_pos_def il q Let_def d round_half_even_of_int
    using nz small v by simp
qed

lemma round_double_of_int:
  assumes "\<bar>n\<bar> < 2 ^ 53"
  shows "round_double (of_int n) = Finite (of_int n)"
proof (cases "n < 0")
  case True
  with assms have "round_pos (of_int (- n)) = Finite (of_int (- n))"
    by (intro round_pos_of_int) simp_all
  with True show ?thesis
    by (simp add: round_double_def)
next
  case False
  with assms have "round_pos (of_int n) = Finite (of_int n)"
    by (intro round_pos_of_int) simp_all
  with False show ?thesis
    by (simp add: round_double_def)
qed

lemma sql_store_of_int:
  "- (2 ^ 63) < n \<Longrightarrow> n < 2 ^ 63 \<Longrightarrow> sql_store (Finite (of_int n)) = Integer n"
  by simp

section \<open>The ledger\<close>

subsection \<open>Auxiliary facts about the two updates\<close>

lemma update_quantity_nonneg:
  assumes f: "\<And>a. sql_nonneg a \<Longrightarrow> sql_nonneg (f a)" and d: "quantities_nonneg d"
  shows "quantities_nonneg (update_quantity f i d)"
proof -
  have "list_all (\<lambda>p. sql_nonneg (quantity p)) ps \<Longrightarrow>
        list_all (\<lambda>p. sql_nonneg (quantity p))
          (map (\<lambda>p. if product_id p = i then p\<lparr>quantity := f (quantity p)\<rparr> else p) ps)" for ps
    by (induction ps) (simp_all add: f)
  with d show ?thesis
    by (simp add: quantities_nonneg_def update_quantity_def)
qed

lemma run_request_nonneg: "quantities_nonneg d \<Longrightarrow> quantities_nonneg (run_request s r d)"
  by (cases r)
    (simp_all add: post_incr_def post_decr_def requireAuth_def update_quantity_nonneg
      sql_plus_1_nonneg sql_max_minus_1_0_nonneg)

lemma run_requests_nonneg: "quantities_nonneg d \<Longrightarrow> quantities_nonneg (run_requests s rs d)"
  by (induction rs arbitrary: d) (simp_all add: run_request_nonneg)

lemma find_update_same:
  "find (\<lambda>p. product_id p = i)
     (map (\<lambda>p. if product_id p = i then p\<lparr>quantity := f (quantity p)\<rparr> else p) ps) =
   map_option (\<lambda>p. p\<lparr>quantity := f (quantity p)\<rparr>) (find (\<lambda>p. product_id p = i) ps)"
  by (induction ps) simp_all

lemma quantity_of_update_same:
  "quantity_of i (update_quantity f i d) = map_option f (quantity_of i d)"
  by (simp add: quantity_of_def update_quantity_def find_update_same option.map_comp comp_def)

lemma quantity_of_post_incr:
  "quantity_of i (snd (post_incr s i d)) =
     (if user s = None then quantity_of i d else map_option sql_plus_1 (quantity_of i d))"
  by (simp add: post_incr_def requireAuth_def quantity_of_update_same)

lemma quantity_of_post_decr:
  "quantity_of i (snd (post_decr s i d)) =
     (if user s = None then quantity_of i d else map_option sql_max_minus_1_0 (quantity_of i d))"
  by (simp add: post_decr_def requireAuth_def quantity_of_update_same)

lemma map_absent:
  "list_all (\<lambda>p. product_id p \<noteq> i) ps \<Longrightarrow>
   map (\<lambda>p. if product_id p = i then p\<lparr>quantity := f (quantity p)\<rparr> else p) ps =
   (ps :: product_row list)"
  by (induction ps) simp_all

lemma update_absent:
  "list_all (\<lambda>p. product_id p \<noteq> i) (products d) \<Longrightarrow> update_quantity f i d = d"
  by (simp add: update_quantity_def map_absent)

lemma filter_absent:
  "list_all (\<lambda>p. product_id p \<noteq> i) ps \<Longrightarrow>
   filter (\<lambda>p. product_id p \<noteq> i) ps = (ps :: product_row list)"
  by (induction ps) simp_all

subsection \<open>The floor at zero\<close>

text \<open>
  C1, as the code has it. If no stored quantity is negative, none is after any run of
  \<open>+1\<close> and \<open>-1\<close> requests, on whichever products and from whichever session. A
  \<open>-1\<close> request on a product whose quantity is 0 leaves it at 0 and is answered by a
  redirect (to the inventory, or to the login page when the session has no user), not
  by an error. After a \<open>-1\<close> request of a logged-in session the product's quantity is
  not negative, whatever it was before.
\<close>

theorem quantity_never_negative:
  "(quantities_nonneg d \<longrightarrow> quantities_nonneg (run_requests s rs d)) \<and>
   (quantity_of i d = Some (Integer 0) \<longrightarrow>
      quantity_of i (snd (post_decr s i d)) = Some (Integer 0) \<and>
      fst (post_decr s i d) = Redirect (if user s = None then ''/login'' else ''/inventory'')) \<and>
   (user s \<noteq> None \<and> quantity_of i (snd (post_decr s i d)) = Some q \<longrightarrow> sql_nonneg q)"
proof (intro conjI impI)
  assume "quantities_nonneg d"
  then show "quantities_nonneg (run_requests s rs d)"
    by (rule run_requests_nonneg)
next
  assume "quantity_of i d = Some (Integer 0)"
  then show "quantity_of i (snd (post_decr s i d)) = Some (Integer 0)"
    by (simp add: quantity_of_post_decr)
next
  show "fst (post_decr s i d) = Redirect (if user s = None then ''/login'' else ''/inventory'')"
    by (simp add: post_decr_def requireAuth_def)
next
  assume "user s \<noteq> None \<and> quantity_of i (snd (post_decr s i d)) = Some q"
  then obtain q0 where "q = sql_max_minus_1_0 q0"
    by (auto simp: quantity_of_post_decr)
  then show "sql_nonneg q"
    by (simp add: sql_max_minus_1_0_nonneg)
qed

text \<open>
  The theorem at the seeded ledger with a fourth product at quantity 0, and the requests
  \<open>-1\<close> on 4, \<open>+1\<close> on 1, \<open>-1\<close> on 2, \<open>-1\<close> on 4.
\<close>

theorem quantity_never_negative_witness:
  "quantities_nonneg with_verde \<and>
   quantities_nonneg (run_requests logged_in [Decr 4, Incr 1, Decr 2, Decr 4] with_verde) \<and>
   quantity_of 4 with_verde = Some (Integer 0) \<and>
   quantity_of 4 (snd (post_decr logged_in 4 with_verde)) = Some (Integer 0) \<and>
   fst (post_decr logged_in 4 with_verde) = Redirect ''/inventory''"
proof -
  have a: "quantities_nonneg with_verde"
    by code_simp
  have b: "quantity_of 4 with_verde = Some (Integer 0)"
    by code_simp
  have c: "user logged_in \<noteq> None"
    by (simp add: logged_in_def)
  from quantity_never_negative [of with_verde logged_in "[Decr 4, Incr 1, Decr 2, Decr 4]" 4] a b c
  show ?thesis
    by simp
qed

text \<open>
  Against C1 as stated: a product added with the quantity \<open>-5\<close> is stored at \<open>-5\<close>,
  and after a \<open>+1\<close> request on it its stored quantity is \<open>-4\<close>.
\<close>

theorem negative_after_increment_counterexample:
  "quantity_of 4 with_minus_five = Some (Integer (- 5)) \<and>
   quantity_of 4 (run_requests logged_in [Incr 4] with_minus_five) = Some (Integer (- 4)) \<and>
   \<not> quantities_nonneg (run_requests logged_in [Incr 4] with_minus_five)"
  by code_simp

subsection \<open>A key that names no product\<close>

text \<open>
  C2, as the code has it. For a key that names no product and a logged-in session, the
  \<open>+1\<close>, \<open>-1\<close> and delete requests all leave the tables as they were and are
  answered by the redirect to the inventory: none of the three reports a missing
  product.
\<close>

theorem absent_id_no_op:
  "list_all (\<lambda>p. product_id p \<noteq> i) (products d) \<Longrightarrow> user s \<noteq> None \<Longrightarrow>
   post_incr s i d = (Redirect ''/inventory'', d) \<and>
   post_decr s i d = (Redirect ''/inventory'', d) \<and>
   post_delete s i d = (Redirect ''/inventory'', d)"
  by (simp add: post_incr_def post_decr_def post_delete_def requireAuth_def update_absent
      filter_absent)

text \<open>The theorem at the key 99 of the seeded ledger, whose keys are 1, 2 and 3.\<close>

theorem absent_id_no_op_witness:
  "post_incr logged_in 99 seeded = (Redirect ''/inventory'', seeded) \<and>
   post_decr logged_in 99 seeded = (Redirect ''/inventory'', seeded) \<and>
   post_delete logged_in 99 seeded = (Redirect ''/inventory'', seeded)"
proof -
  have a: "list_all (\<lambda>p. product_id p \<noteq> 99) (products seeded)"
    by code_simp
  have c: "user logged_in \<noteq> None"
    by (simp add: logged_in_def)
  from absent_id_no_op [OF a c] show ?thesis .
qed

text \<open>
  Against C2 as stated: no product has the key 99 in the seeded ledger, and the \<open>+1\<close>
  and \<open>-1\<close> requests on it are answered like successful ones, with nothing changed.
\<close>

theorem absent_id_counterexample:
  "quantity_of 99 seeded = None \<and>
   post_incr logged_in 99 seeded = (Redirect ''/inventory'', seeded) \<and>
   post_decr logged_in 99 seeded = (Redirect ''/inventory'', seeded)"
  by code_simp

subsection \<open>\<open>+1\<close> followed by \<open>-1\<close>\<close>

text \<open>
  C8, as the code has it. For a product whose stored quantity is an INTEGER \<open>q\<close> with
  \<open>0 \<le> q < 2^63 - 1\<close>, a \<open>+1\<close> request followed by a \<open>-1\<close> request on it, both
  from the same session, brings the stored quantity back to \<open>q\<close>; for a logged-in
  session the quantity in between is \<open>q + 1\<close>.
\<close>

theorem incr_then_decr:
  "quantity_of i d = Some (Integer q) \<Longrightarrow> 0 \<le> q \<Longrightarrow> q < 2 ^ 63 - 1 \<Longrightarrow>
   quantity_of i (snd (post_decr s i (snd (post_incr s i d)))) = Some (Integer q) \<and>
   (user s \<noteq> None \<longrightarrow> quantity_of i (snd (post_incr s i d)) = Some (Integer (q + 1)))"
  by (simp add: quantity_of_post_decr quantity_of_post_incr)

text \<open>The theorem at the first seeded product: 12, then 13, then 12 again.\<close>

theorem incr_then_decr_witness:
  "quantity_of 1 seeded = Some (Integer 12) \<and>
   quantity_of 1 (snd (post_incr logged_in 1 seeded)) = Some (Integer 13) \<and>
   quantity_of 1 (snd (post_decr logged_in 1 (snd (post_incr logged_in 1 seeded)))) =
     Some (Integer 12)"
proof -
  have a: "quantity_of 1 seeded = Some (Integer 12)"
    by code_simp
  have c: "user logged_in \<noteq> None"
    by (simp add: logged_in_def)
  from incr_then_decr [of 1 seeded 12 logged_in] a c show ?thesis
    by simp
qed

text \<open>
  Against C8 as stated, at two quantities that are not negative. In \<open>at_max\<close> the
  fourth product is at \<open>2^63 - 1\<close>; after \<open>+1\<close> and \<open>-1\<close> it is at the REAL
  \<open>2^63\<close>. In \<open>with_one_tenth\<close> it is at the double nearest to \<open>0.1\<close>; after \<open>+1\<close>
  and \<open>-1\<close> it is at another double, \<open>0.10000000000000009\<close>.
\<close>

theorem incr_then_decr_counterexample:
  "quantity_of 4 at_max = Some (Integer 9223372036854775807) \<and>
   quantity_of 4 (snd (post_decr logged_in 4 (snd (post_incr logged_in 4 at_max)))) =
     Some (Real (Finite 9223372036854775808)) \<and>
   quantity_of 4 with_one_tenth =
     Some (Real (Finite (3602879701896397 / 36028797018963968))) \<and>
   quantity_of 4 (snd (post_decr logged_in 4 (snd (post_incr logged_in 4 with_one_tenth)))) =
     Some (Real (Finite (225179981368525 / 2251799813685248)))"
  by code_simp

subsection \<open>Adding a product\<close>

text \<open>
  C4, as the code has it. For an add request of a logged-in session whose name is a
  string, the new product is appended under the next key with the trimmed name and the
  quantity \<open>Number(quantity||0)\<close> as the column stores it: 0 when the quantity is left
  out or empty, and the double nearest to the supplied number otherwise, which for an
  integer of magnitude below \<open>2^53\<close> is that integer itself, a negative one included.
\<close>

theorem add_stores_number:
  "user s \<noteq> None \<Longrightarrow> b_name b = Str n \<Longrightarrow>
   (b_quantity b = Omitted \<or> b_quantity b = Blank \<longrightarrow>
      products (snd (post_add s b d)) =
        products d @ [\<lparr>product_id = products_seq d + 1, name = trim n, quantity = Integer 0\<rparr>]) \<and>
   (b_quantity b = NumericText (of_int k) \<and> \<bar>k\<bar> < 2 ^ 53 \<longrightarrow>
      products (snd (post_add s b d)) =
        products d @ [\<lparr>product_id = products_seq d + 1, name = trim n, quantity = Integer k\<rparr>]) \<and>
   (b_quantity b = NumericText r \<longrightarrow>
      products (snd (post_add s b d)) =
        products d @ [\<lparr>product_id = products_seq d + 1, name = trim n,
                       quantity = sql_store (round_double r)\<rparr>])"
proof (intro conjI impI)
  assume "user s \<noteq> None" "b_name b = Str n" "b_quantity b = Omitted \<or> b_quantity b = Blank"
  then show "products (snd (post_add s b d)) =
      products d @ [\<lparr>product_id = products_seq d + 1, name = trim n, quantity = Integer 0\<rparr>]"
    by (auto simp: post_add_def requireAuth_def insert_product_def)
next
  assume a: "user s \<noteq> None" "b_name b = Str n"
    and k: "b_quantity b = NumericText (of_int k) \<and> \<bar>k\<bar> < 2 ^ 53"
  from k have "round_double (of_int k) = Finite (of_int k)"
    by (intro round_double_of_int) simp
  moreover from k have "- (2 ^ 63) < k" "k < 2 ^ 63"
    by (simp_all add: abs_less_iff)
  then have "sql_store (Finite (of_int k)) = Integer k"
    by (rule sql_store_of_int)
  ultimately show "products (snd (post_add s b d)) =
      products d @ [\<lparr>product_id = products_seq d + 1, name = trim n, quantity = Integer k\<rparr>]"
    using a k by (simp add: post_add_def requireAuth_def insert_product_def)
next
  assume "user s \<noteq> None" "b_name b = Str n" "b_quantity b = NumericText r"
  then show "products (snd (post_add s b d)) =
      products d @ [\<lparr>product_id = products_seq d + 1, name = trim n,
                     quantity = sql_store (round_double r)\<rparr>]"
    by (simp add: post_add_def requireAuth_def insert_product_def)
qed

text \<open>The theorem at two requests on the seeded ledger: no quantity, and the quantity 7.\<close>

theorem add_stores_number_witness:
  "products (snd (post_add logged_in (empty_body\<lparr>b_name := Str '' Verde ''\<rparr>) seeded)) =
     products seeded @ [\<lparr>product_id = 4, name = ''Verde'', quantity = Integer 0\<rparr>] \<and>
   products (snd (post_add logged_in
       (empty_body\<lparr>b_name := Str '' Verde '', b_quantity := NumericText 7\<rparr>) seeded)) =
     products seeded @ [\<lparr>product_id = 4, name = ''Verde'', quantity = Integer 7\<rparr>]"
proof -
  let ?b1 = "empty_body\<lparr>b_name := Str '' Verde ''\<rparr>"
  let ?b2 = "empty_body\<lparr>b_name := Str '' Verde '', b_quantity := NumericText 7\<rparr>"
  have c: "user logged_in \<noteq> None"
    by (simp add: logged_in_def)
  have n1: "b_name ?b1 = Str '' Verde ''" and n2: "b_name ?b2 = Str '' Verde ''"
    by simp_all
  have q1: "b_quantity ?b1 = Omitted \<or> b_quantity ?b1 = Blank"
    by (simp add: empty_body_def)
  have q2: "b_quantity ?b2 = NumericText (of_int 7) \<and> \<bar>7 :: int\<bar> < 2 ^ 53"
    by simp
  have t: "trim '' Verde '' = ''Verde''"
    by code_simp
  have k: "products_seq seeded + 1 = 4"
    by code_simp
  from add_stores_number [OF c n1, of seeded] q1
  have r1: "products (snd (post_add logged_in ?b1 seeded)) =
      products seeded @
        [\<lparr>product_id = products_seq seeded + 1, name = trim '' Verde '', quantity = Integer 0\<rparr>]"
    by blast
  from add_stores_number [OF c n2, of seeded 7] q2
  have r2: "products (snd (post_add logged_in ?b2 seeded)) =
      products seeded @
        [\<lparr>product_id = products_seq seeded + 1, name = trim '' Verde '', quantity = Integer 7\<rparr>]"
    by blast
  from r1 r2 show ?thesis
    unfolding t k by (rule conjI)
qed

text \<open>
  Against C4 as stated: the quantity \<open>-5\<close> is stored as \<open>-5\<close>, not as 0.
\<close>

theorem add_negative_counterexample:
  "products (snd (post_add logged_in
      (empty_body\<lparr>b_name := Str ''Verde'', b_quantity := NumericText (- 5)\<rparr>) seeded)) =
   products seeded @ [\<lparr>product_id = 4, name = ''Verde'', quantity = Integer (- 5)\<rparr>]"
  by code_simp

text \<open>
  C5, as the code has it. An add request of a logged-in session whose name is empty
  after trimming, and whose quantity converts to a number, is answered by the redirect
  to the inventory and appends a product with the empty name: the handler has no check
  of the name.
\<close>

theorem add_empty_name:
  "user s \<noteq> None \<Longrightarrow> b_name b = Str n \<Longrightarrow> trim n = [] \<Longrightarrow>
   Number_or0 (b_quantity b) = Num x \<Longrightarrow>
   post_add s b d =
     (Redirect ''/inventory'',
      d\<lparr>products := products d @
           [\<lparr>product_id = products_seq d + 1, name = [], quantity = sql_store x\<rparr>],
        products_seq := products_seq d + 1\<rparr>)"
  by (simp add: post_add_def requireAuth_def insert_product_def)

text \<open>The theorem at the empty name and the quantity 3, on the seeded ledger.\<close>

theorem add_empty_name_witness:
  "post_add logged_in (empty_body\<lparr>b_name := Str [], b_quantity := NumericText 3\<rparr>) seeded =
     (Redirect ''/inventory'',
      seeded\<lparr>products := products seeded @
                [\<lparr>product_id = 4, name = [], quantity = Integer 3\<rparr>],
             products_seq := 4\<rparr>)"
proof -
  let ?b = "empty_body\<lparr>b_name := Str [], b_quantity := NumericText 3\<rparr>"
  have c: "user logged_in \<noteq> None"
    by (simp add: logged_in_def)
  have n: "b_name ?b = Str []"
    by simp
  have t: "trim [] = []"
    by (simp add: trim_def)
  have r: "round_double 3 = Finite 3"
    by code_simp
  have q: "Number_or0 (b_quantity ?b) = Num (Finite 3)"
    by (simp add: r)
  have st: "sql_store (Finite 3) = Integer 3"
    by simp
  have k: "products_seq seeded + 1 = 4"
    by code_simp
  from add_empty_name [OF c n t q, of seeded] show ?thesis
    unfolding st k .
qed

text \<open>
  Against C5 as stated: the name of three spaces is empty after trimming, and the add
  request with it creates the product 4 with the empty name.
\<close>

theorem add_empty_name_counterexample:
  "trim ''   '' = [] \<and>
   post_add logged_in (empty_body\<lparr>b_name := Str ''   ''\<rparr>) seeded =
     (Redirect ''/inventory'',
      seeded\<lparr>products := products seeded @
                [\<lparr>product_id = 4, name = [], quantity = Integer 0\<rparr>],
             products_seq := 4\<rparr>)"
  by code_simp

subsection \<open>The seed\<close>

text \<open>
  C9. When the process starts on an empty \<open>products\<close> table, the table afterwards
  holds exactly three products, under the next three keys in this order:
  \<open>Tinto Reserva\<close> at 12, \<open>Branco Seco\<close> at 8 and \<open>Rose Suave\<close> (its fourth letter
  is U+00E9) at 5; the users are untouched. When it starts on a table that is not
  empty, nothing changes. Hence starting twice is starting once.
\<close>

theorem startup_seeds_once:
  \<open>(products d = [] \<longrightarrow>
      products (startup d) =
        [\<lparr>product_id = products_seq d + 1, name = ''Tinto Reserva'', quantity = Integer 12\<rparr>,
         \<lparr>product_id = products_seq d + 2, name = ''Branco Seco'', quantity = Integer 8\<rparr>,
         \<lparr>product_id = products_seq d + 3, name = ''Ros'' @ [CHR 0xE9] @ '' Suave'',
            quantity = Integer 5\<rparr>] \<and>
      users (startup d) = users d) \<and>
   (products d \<noteq> [] \<longrightarrow> startup d = d) \<and>
   startup (startup d) = startup d\<close>
  by (simp add: startup_def hasProducts_def seed_def insert_product_def)

text \<open>The theorem at the fresh database and at a ledger of four products.\<close>

theorem startup_seeds_once_witness:
  \<open>products (startup empty_db) =
     [\<lparr>product_id = 1, name = ''Tinto Reserva'', quantity = Integer 12\<rparr>,
      \<lparr>product_id = 2, name = ''Branco Seco'', quantity = Integer 8\<rparr>,
      \<lparr>product_id = 3, name = ''Ros'' @ [CHR 0xE9] @ '' Suave'', quantity = Integer 5\<rparr>] \<and>
   startup with_verde = with_verde\<close>
proof -
  have a: "products empty_db = []"
    by (simp add: empty_db_def)
  have k: "products_seq empty_db = 0"
    by (simp add: empty_db_def)
  have b: "products with_verde \<noteq> []"
    by code_simp
  from startup_seeds_once [of empty_db] startup_seeds_once [of with_verde] a b k
  show ?thesis
    by simp
qed

section \<open>Registration and login\<close>

lemma filter_none: "\<not> list_ex P xs \<Longrightarrow> filter P xs = []"
  by (induction xs) simp_all

lemma normalized_empty: "toLowerCase (trim []) = []"
  by (simp add: toLowerCase_def trim_def)

subsection \<open>The access token\<close>

text \<open>
  C3. If \<open>ACCESS_TOKEN\<close> is absent from the configuration (or is the empty string), or
  the presented token is not the configured one (absent and non-string tokens included),
  the login is answered by the invalid-token message, the session is left as it was, and
  no email has been looked up in \<open>users\<close>; this holds whatever the table and the
  password comparison are.
\<close>

theorem token_checked_first:
  "expectedToken = None \<or> expectedToken = Some [] \<or>
     (\<exists>t. expectedToken = Some t \<and> b_accessToken b \<noteq> Str t) \<Longrightarrow>
   post_login bcompare expectedToken b s d = (invalid_token, s, [])"
  by (auto simp: post_login_def)

text \<open>
  The theorem at the registered user's right email and password: with no token
  configured, and with the token \<open>tik\<close> presented where \<open>tok\<close> is configured.
\<close>

theorem token_checked_first_witness:
  "post_login example_compare None
     (empty_body\<lparr>b_email := Str ''a@x.com'', b_password := Str ''pass1'',
                  b_accessToken := Str ''tok''\<rparr>) anonymous registered =
     (invalid_token, anonymous, []) \<and>
   post_login example_compare (Some ''tok'')
     (empty_body\<lparr>b_email := Str ''a@x.com'', b_password := Str ''pass1'',
                  b_accessToken := Str ''tik''\<rparr>) anonymous registered =
     (invalid_token, anonymous, [])"
proof -
  have a: "(None :: string option) = None \<or> (None :: string option) = Some [] \<or>
      (\<exists>t. (None :: string option) = Some t \<and>
        b_accessToken (empty_body\<lparr>b_email := Str ''a@x.com'', b_password := Str ''pass1'',
                  b_accessToken := Str ''tok''\<rparr>) \<noteq> Str t)"
    by simp
  have b: "Some ''tok'' = None \<or> Some ''tok'' = Some [] \<or>
      (\<exists>t. Some ''tok'' = Some t \<and>
        b_accessToken (empty_body\<lparr>b_email := Str ''a@x.com'', b_password := Str ''pass1'',
                  b_accessToken := Str ''tik''\<rparr>) \<noteq> Str t)"
    by simp
  from token_checked_first [OF a] token_checked_first [OF b] show ?thesis
    by simp
qed

subsection \<open>Unknown email and wrong password\<close>

text \<open>
  Take two login requests that present the configured access token. In the first the
  email (the empty string if the field is absent), trimmed and lower-cased, is not in
  \<open>users\<close>. In the second it is, the password is a string or absent (then the empty
  string), and the stored hash does not accept it. Both are answered by the same
  invalid-credentials message, and both leave the session as it was.
\<close>

lemma same_failure:
  assumes tok: "t \<noteq> []" "b_accessToken b1 = Str t" "b_accessToken b2 = Str t"
    and e1: "or_empty (b_email b1) = Str e1"
    and unknown: "select_user (toLowerCase (trim e1)) d = None"
    and e2: "or_empty (b_email b2) = Str e2"
    and known: "select_user (toLowerCase (trim e2)) d = Some u"
    and p2: "or_empty (b_password b2) = Str p2"
    and mismatch: "\<not> bcompare p2 (password_hash u)"
  shows "fst (post_login bcompare (Some t) b1 s d) = fst (post_login bcompare (Some t) b2 s d) \<and>
         fst (post_login bcompare (Some t) b1 s d) = invalid_credentials \<and>
         fst (snd (post_login bcompare (Some t) b1 s d)) = s \<and>
         fst (snd (post_login bcompare (Some t) b2 s d)) = s"
  using assms by (simp add: post_login_def)

text \<open>
  C6, where the code departs from it. After the registration of \<open>a@x.com\<close>, take two
  logins that present the configured token and, as the password, an array (the body
  \<open>password[]=x\<close>), which is no password of any user. For \<open>nobody@x.com\<close> the answer
  is the invalid-credentials message. For \<open>a@x.com\<close> the user is found,
  \<open>bcrypt.compare\<close> rejects the array, and the handler, which has no \<open>try\<close> around
  it, throws instead of answering: the two outcomes differ, and tell the registered
  email from the other.
\<close>

theorem array_password_reveals_email:
  "post_login example_compare (Some ''tok'')
     (empty_body\<lparr>b_email := Str ''nobody@x.com'', b_password := Compound,
                  b_accessToken := Str ''tok''\<rparr>) anonymous registered =
     (invalid_credentials, anonymous, [''nobody@x.com'']) \<and>
   post_login example_compare (Some ''tok'')
     (empty_body\<lparr>b_email := Str ''a@x.com'', b_password := Compound,
                  b_accessToken := Str ''tok''\<rparr>) anonymous registered =
     (Uncaught Error, anonymous, [''a@x.com''])"
  by code_simp

subsection \<open>Registering an email twice\<close>

text \<open>
  C7. Take two registrations with string emails that are equal after trimming and
  lower-casing and with string passwords, the first made when no user has that email.
  The first is answered by the redirect to the login page. The second, made on the table
  the first leaves, from any session and whatever its hash, is answered by the page
  that says the email is already registered, and changes nothing: the table then holds
  exactly one user with that email.
\<close>

theorem register_duplicate:
  assumes b1: "b_email b1 = Str e1" "b_password b1 = Str p1"
    and b2: "b_email b2 = Str e2" "b_password b2 = Str p2"
    and same: "toLowerCase (trim e1) = toLowerCase (trim e2)"
    and fresh: "\<not> list_ex (\<lambda>u. email u = toLowerCase (trim e1)) (users d)"
  shows "let d1 = snd (snd (post_register h1 b1 s1 d)) in
         fst (post_register h1 b1 s1 d) = Redirect ''/login'' \<and>
         fst (post_register h2 b2 s2 d1) =
           register_message (SqliteError ''SQLITE_CONSTRAINT_UNIQUE'') \<and>
         snd (snd (post_register h2 b2 s2 d1)) = d1 \<and>
         length (filter (\<lambda>u. email u = toLowerCase (trim e1)) (users d1)) = 1"
  using assms
  by (simp add: post_register_def insert_user_def Let_def filter_none)

text \<open>
  The theorem on the seeded database, at the emails \<open> A@X.com \<close> and \<open>a@x.COM\<close>;
  the page of the second answer is written out.
\<close>

theorem register_duplicate_witness:
  \<open>toLowerCase (trim '' A@X.com '') = toLowerCase (trim ''a@x.COM'') \<and>
   (let d1 = snd (snd (post_register example_hash
              (empty_body\<lparr>b_email := Str '' A@X.com '', b_password := Str ''pass1''\<rparr>)
              anonymous seeded)) in
    fst (post_register example_hash
           (empty_body\<lparr>b_email := Str '' A@X.com '', b_password := Str ''pass1''\<rparr>)
           anonymous seeded) = Redirect ''/login'' \<and>
    fst (post_register example_hash
           (empty_body\<lparr>b_email := Str ''a@x.COM'', b_password := Str ''other''\<rparr>)
           anonymous d1) =
      SendPage ''Cadastro - Vinheria''
        (''<p>Email j'' @ [CHR 0xE1] @ '' cadastrado.</p><a href="/register">Voltar</a>'') \<and>
    snd (snd (post_register example_hash
           (empty_body\<lparr>b_email := Str ''a@x.COM'', b_password := Str ''other''\<rparr>)
           anonymous d1)) = d1 \<and>
    length (filter (\<lambda>u. email u = toLowerCase (trim '' A@X.com '')) (users d1)) = 1)\<close>
proof -
  let ?b1 = "empty_body\<lparr>b_email := Str '' A@X.com '', b_password := Str ''pass1''\<rparr>"
  let ?b2 = "empty_body\<lparr>b_email := Str ''a@x.COM'', b_password := Str ''other''\<rparr>"
  have b1: "b_email ?b1 = Str '' A@X.com ''" "b_password ?b1 = Str ''pass1''"
    by simp_all
  have b2: "b_email ?b2 = Str ''a@x.COM''" "b_password ?b2 = Str ''other''"
    by simp_all
  have same: "toLowerCase (trim '' A@X.com '') = toLowerCase (trim ''a@x.COM'')"
    by code_simp
  have fresh: "\<not> list_ex (\<lambda>u. email u = toLowerCase (trim '' A@X.com '')) (users seeded)"
    by code_simp
  have m: \<open>register_message (SqliteError ''SQLITE_CONSTRAINT_UNIQUE'') =
      SendPage ''Cadastro - Vinheria''
        (''<p>Email j'' @ [CHR 0xE1] @ '' cadastrado.</p><a href="/register">Voltar</a>'')\<close>
    by (simp add: register_message_def)
  have r: "let d1 = snd (snd (post_register example_hash ?b1 anonymous seeded)) in
         fst (post_register example_hash ?b1 anonymous seeded) = Redirect ''/login'' \<and>
         fst (post_register example_hash ?b2 anonymous d1) =
           register_message (SqliteError ''SQLITE_CONSTRAINT_UNIQUE'') \<and>
         snd (snd (post_register example_hash ?b2 anonymous d1)) = d1 \<and>
         length (filter (\<lambda>u. email u = toLowerCase (trim '' A@X.com '')) (users d1)) = 1"
    by (rule register_duplicate [OF b1 b2 same fresh])
  show ?thesis
  proof (rule conjI)
    show "toLowerCase (trim '' A@X.com '') = toLowerCase (trim ''a@x.COM'')"
      by (rule same)
  next
    from r show \<open>let d1 = snd (snd (post_register example_hash ?b1 anonymous seeded)) in
         fst (post_register example_hash ?b1 anonymous seeded) = Redirect ''/login'' \<and>
         fst (post_register example_hash ?b2 anonymous d1) =
           SendPage ''Cadastro - Vinheria''
             (''<p>Email j'' @ [CHR 0xE1] @ '' cadastrado.</p><a href="/register">Voltar</a>'') \<and>
         snd (snd (post_register example_hash ?b2 anonymous d1)) = d1 \<and>
         length (filter (\<lambda>u. email u = toLowerCase (trim '' A@X.com '')) (users d1)) = 1\<close>
      unfolding m .
  qed
qed

subsection \<open>A login without an email or without a password\<close>

text \<open>
  C10, as the code has it. Take a login request that presents the configured access
  token, in which the email or the password is absent and the other of the two is
  absent or a string. The handler answers it and does not throw: an absent email is
  looked up as the empty string, an absent password is the request with the empty
  password, and the answer is the invalid-credentials message with the session left as
  it was, unless a user is stored under the looked-up email and the stored hash accepts
  the password, in which case the login succeeds.
\<close>

theorem absent_field_login:
  assumes tok: "t \<noteq> []" "b_accessToken b = Str t"
    and absent: "b_email b = Undefined \<or> b_password b = Undefined"
    and e: "or_empty (b_email b) = Str e" and pw: "or_empty (b_password b) = Str pw"
  shows "(b_email b = Undefined \<longrightarrow> snd (snd (post_login bcompare (Some t) b s d)) = ['''']) \<and>
         (b_password b = Undefined \<longrightarrow>
            post_login bcompare (Some t) b s d =
            post_login bcompare (Some t) (b\<lparr>b_password := Str []\<rparr>) s d) \<and>
         post_login bcompare (Some t) b s d =
           (case select_user (toLowerCase (trim e)) d of
              None \<Rightarrow> (invalid_credentials, s, [toLowerCase (trim e)])
            | Some u \<Rightarrow>
                if bcompare pw (password_hash u)
                then (Redirect ''/inventory'', s\<lparr>user := Some (user_id u, email u)\<rparr>,
                      [toLowerCase (trim e)])
                else (invalid_credentials, s, [toLowerCase (trim e)]))"
  using assms
  by (auto simp: post_login_def normalized_empty Let_def split: option.splits)

text \<open>
  The theorem after the registration of \<open>a@x.com\<close> with \<open>pass1\<close>, at the login with
  that email and no password: the empty password is refused.
\<close>

theorem absent_field_login_witness:
  "post_login example_compare (Some ''tok'')
     (empty_body\<lparr>b_email := Str ''a@x.com'', b_accessToken := Str ''tok''\<rparr>) anonymous registered =
   post_login example_compare (Some ''tok'')
     (empty_body\<lparr>b_email := Str ''a@x.com'', b_accessToken := Str ''tok'',
                  b_password := Str []\<rparr>) anonymous registered \<and>
   post_login example_compare (Some ''tok'')
     (empty_body\<lparr>b_email := Str ''a@x.com'', b_accessToken := Str ''tok''\<rparr>) anonymous registered =
   (invalid_credentials, anonymous, [''a@x.com''])"
proof -
  let ?b = "empty_body\<lparr>b_email := Str ''a@x.com'', b_accessToken := Str ''tok''\<rparr>"
  let ?u = "\<lparr>user_id = 1, email = ''a@x.com'', password_hash = ''hash:pass1''\<rparr>"
  have t: "''tok'' \<noteq> []" "b_accessToken ?b = Str ''tok''"
    by simp_all
  have absent: "b_email ?b = Undefined \<or> b_password ?b = Undefined"
    by (simp add: empty_body_def)
  have e: "or_empty (b_email ?b) = Str ''a@x.com''"
    by simp
  have pw: "or_empty (b_password ?b) = Str []"
    by (simp add: empty_body_def)
  have p: "b_password ?b = Undefined"
    by (simp add: empty_body_def)
  have k: "toLowerCase (trim ''a@x.com'') = ''a@x.com''"
    by code_simp
  have known: "select_user ''a@x.com'' registered = Some ?u"
    by code_simp
  have refused: "\<not> example_compare [] (password_hash ?u)"
    by (simp add: example_compare_def example_hash_def)
  note r = absent_field_login [where bcompare = example_compare and s = anonymous
      and d = registered, OF t absent e pw]
  from r p have same: "post_login example_compare (Some ''tok'') ?b anonymous registered =
      post_login example_compare (Some ''tok'') (?b\<lparr>b_password := Str []\<rparr>) anonymous registered"
    by blast
  from r have "post_login example_compare (Some ''tok'') ?b anonymous registered =
      (case select_user (toLowerCase (trim ''a@x.com'')) registered of
         None \<Rightarrow> (invalid_credentials, anonymous, [toLowerCase (trim ''a@x.com'')])
       | Some u \<Rightarrow>
           if example_compare [] (password_hash u)
           then (Redirect ''/inventory'', anonymous\<lparr>user := Some (user_id u, email u)\<rparr>,
                 [toLowerCase (trim ''a@x.com'')])
           else (invalid_credentials, anonymous, [toLowerCase (trim ''a@x.com'')]))"
    by blast
  also have "\<dots> = (invalid_credentials, anonymous, [''a@x.com''])"
    using refused by (simp add: k known)
  finally have refusal: "post_login example_compare (Some ''tok'') ?b anonymous registered =
      (invalid_credentials, anonymous, [''a@x.com''])" .
  from same refusal show ?thesis
    by (rule conjI)
qed

text \<open>
  Against C10 as stated: after the registration of \<open>a@x.com\<close> with the empty password,
  the login with that email and no password field succeeds and sets the session's user.
\<close>

theorem absent_password_counterexample:
  "post_login example_compare (Some ''tok'')
     (empty_body\<lparr>b_email := Str ''a@x.com'', b_accessToken := Str ''tok''\<rparr>)
     anonymous blank_password =
   (Redirect ''/inventory'', \<lparr>user = Some (1, ''a@x.com''), flash = None\<rparr>, [''a@x.com''])"
  by code_simp

end
